theory Spec2Isabelle
  imports Main "HOL-Library.AList"
begin

section \<open>Exceptions\<close>

text \<open>
  Every exception class that the modelled code raises or catches is a constructor; a
  method that can raise returns \<open>error + 'a\<close>, with \<open>Inl\<close> for the raised exception.
  \<open>RawMemberError\<close> is the exception that the entry point (__main__.py) catches around
  \<open>from_raw\<close>; schema.py does not define or raise it.
\<close>

datatype error =
    InstanceValueError
  | NonexistentInstance
  | NonexistentSchemaNode
  | RawMemberError
  | EndOfInput
  | UnexpectedInput
  | IndexError
  | KeyError
  | TypeError
  | ValueError
  | AttributeError

text \<open>
  \<open>NonexistentSchemaNode.__init__(self, name, ns)\<close> (schema.py) takes two arguments
  besides the receiver. Python raises \<open>TypeError\<close> at a call whose argument count
  differs, before any exception object exists. The argument is the number of positional
  arguments at the call site.
\<close>

definition new_NonexistentSchemaNode :: "nat \<Rightarrow> error" where
  "new_NonexistentSchemaNode nargs = (if nargs = 2 then NonexistentSchemaNode else TypeError)"

section \<open>Values\<close>

text \<open>
  Modelled from the spec: the value classes (module instvalue) are not among the source
  files. A value is a scalar, an object or an array; objects and arrays carry a
  timestamp. An object is a Python dict, which keeps its members in insertion order (the
  spec requires the order to be preserved): the model is an association list. An array
  is a Python list. Plain dicts and lists (raw JSON data, not
  yet converted) are values as well, without a timestamp. The clock is a natural number.
\<close>

type_synonym timestamp = nat

datatype scalar = SBool bool | SInt int | SStr string

datatype val =
    Scalar scalar
  | PyDict "(string \<times> val) list"
  | PyList "val list"
  | ObjectValue "(string \<times> val) list" timestamp
  | ArrayValue "val list" timestamp

text \<open>\<open>InstanceKey\<close>: a member name or an entry index.\<close>

datatype instance_key = Name string | Index int

text \<open>\<open>isinstance(v, StructuredValue)\<close>\<close>

fun is_StructuredValue :: "val \<Rightarrow> bool" where
  "is_StructuredValue (ObjectValue ms ts) = True"
| "is_StructuredValue (ArrayValue vs ts) = True"
| "is_StructuredValue v = False"

text \<open>\<open>v.timestamp\<close>: only objects and arrays have the attribute.\<close>

fun value_timestamp :: "val \<Rightarrow> error + timestamp" where
  "value_timestamp (ObjectValue ms ts) = Inr ts"
| "value_timestamp (ArrayValue vs ts) = Inr ts"
| "value_timestamp v = Inl AttributeError"

subsection \<open>Python list indexing and slicing\<close>

text \<open>
  The position that an index \<open>i\<close> denotes in a sequence of length \<open>n\<close>: a negative
  index counts from the end, and there is no position when the index is out of range.
\<close>

definition norm_index :: "nat \<Rightarrow> int \<Rightarrow> nat option" where
  "norm_index n i =
     (if 0 \<le> i \<and> i < int n then Some (nat i)
      else if i < 0 \<and> 0 \<le> int n + i then Some (nat (int n + i))
      else None)"

text \<open>\<open>xs[i]\<close> raises IndexError out of range.\<close>

definition list_getitem :: "'a list \<Rightarrow> int \<Rightarrow> error + 'a" where
  "list_getitem xs i =
     (case norm_index (length xs) i of None \<Rightarrow> Inl IndexError | Some j \<Rightarrow> Inr (xs ! j))"

text \<open>\<open>xs[:i]\<close> and \<open>xs[i:]\<close>: slices never raise, the bounds are clamped.\<close>

definition slice_to :: "'a list \<Rightarrow> int \<Rightarrow> 'a list" where
  "slice_to xs i = (if i < 0 then take (nat (int (length xs) + i)) xs else take (nat i) xs)"

definition slice_from :: "'a list \<Rightarrow> int \<Rightarrow> 'a list" where
  "slice_from xs i = (if i < 0 then drop (nat (int (length xs) + i)) xs else drop (nat i) xs)"

text \<open>\<open>del xs[i]\<close>\<close>

definition list_delitem :: "'a list \<Rightarrow> int \<Rightarrow> error + 'a list" where
  "list_delitem xs i =
     (case norm_index (length xs) i of
        None \<Rightarrow> Inl IndexError
      | Some j \<Rightarrow> Inr (take j xs @ drop (Suc j) xs))"

subsection \<open>Subscription and iteration\<close>

text \<open>
  \<open>v[key]\<close> for any value: a dict raises KeyError for a key it does not hold (an integer
  is never a member name), a list raises TypeError for a key that is no integer and
  IndexError out of range, a string gives the character at an integer index, and any
  other scalar is not subscriptable (TypeError).
\<close>

fun py_getitem :: "val \<Rightarrow> instance_key \<Rightarrow> error + val" where
  "py_getitem (PyDict ms) (Name k) = (case map_of ms k of None \<Rightarrow> Inl KeyError | Some v \<Rightarrow> Inr v)"
| "py_getitem (ObjectValue ms ts) (Name k) =
     (case map_of ms k of None \<Rightarrow> Inl KeyError | Some v \<Rightarrow> Inr v)"
| "py_getitem (PyDict ms) (Index i) = Inl KeyError"
| "py_getitem (ObjectValue ms ts) (Index i) = Inl KeyError"
| "py_getitem (PyList vs) (Index i) = list_getitem vs i"
| "py_getitem (ArrayValue vs ts) (Index i) = list_getitem vs i"
| "py_getitem (PyList vs) (Name k) = Inl TypeError"
| "py_getitem (ArrayValue vs ts) (Name k) = Inl TypeError"
| "py_getitem (Scalar (SStr s)) (Index i) =
     (case list_getitem s i of Inl e \<Rightarrow> Inl e | Inr c \<Rightarrow> Inr (Scalar (SStr [c])))"
| "py_getitem (Scalar s) k = Inl TypeError"

text \<open>
  \<open>for x in v\<close>: a dict yields its keys, a list its elements, a string its characters;
  no other scalar is iterable.
\<close>

fun py_iter :: "val \<Rightarrow> error + val list" where
  "py_iter (PyDict ms) = Inr (map (\<lambda>m. Scalar (SStr (fst m))) ms)"
| "py_iter (ObjectValue ms ts) = Inr (map (\<lambda>m. Scalar (SStr (fst m))) ms)"
| "py_iter (PyList vs) = Inr vs"
| "py_iter (ArrayValue vs ts) = Inr vs"
| "py_iter (Scalar (SStr s)) = Inr (map (\<lambda>c. Scalar (SStr [c])) s)"
| "py_iter (Scalar s) = Inl TypeError"

lemma size_map_of: "map_of ms k = Some v \<Longrightarrow> size v < Suc (size_list (size_prod (\<lambda>x. 0) size) ms)"
  by (induction ms) (auto split: if_splits)

lemma py_getitem_Name_size: "py_getitem v (Name k) = Inr w \<Longrightarrow> size w < size v"
  by (cases v) (auto split: option.splits scalar.splits dest: size_map_of)

lemma size_elem: "x \<in> set xs \<Longrightarrow> size x < Suc (size_list size xs)"
  for x :: val
  by (induction xs) auto

lemma py_iter_size: "py_iter v = Inr ens \<Longrightarrow> en \<in> set ens \<Longrightarrow> size en \<le> size v"
  by (cases "v" rule: py_iter.cases) (auto dest: size_elem)

section \<open>LinkedList\<close>

text \<open>
  The persistent linked list of instance.py: \<open>EmptyList\<close> is the singleton empty list,
  \<open>LinkedList head tail\<close> a cell.
\<close>

datatype 'a linked_list = EmptyList | LinkedList 'a "'a linked_list"

definition cons :: "'a linked_list \<Rightarrow> 'a \<Rightarrow> 'a linked_list" where
  "cons self v = LinkedList v self"

fun pop :: "'a linked_list \<Rightarrow> error + ('a \<times> 'a linked_list)" where
  "pop EmptyList = Inl IndexError"
| "pop (LinkedList h t) = Inr (h, t)"

text \<open>
  \<open>from_list\<close>: the loop runs over \<open>vals[::-1]\<close> and conses each value onto the
  result.
\<close>

definition from_list :: "'a list \<Rightarrow> 'a linked_list" where
  "from_list vals = fold (\<lambda>v res. cons res v) (rev vals) EmptyList"

text \<open>
  \<open>LinkedList.__iter__\<close> is a generator: it pops until \<open>pop\<close> raises IndexError and
  then raises StopIteration. In the Python versions this code was written for (before
  3.7, where PEP 479 took effect) a StopIteration raised in the body of a generator ends
  the generator. \<open>list(l)\<close> collects what it yields.
\<close>

fun list_of_linked :: "'a linked_list \<Rightarrow> 'a list" where
  "list_of_linked EmptyList = []"
| "list_of_linked (LinkedList h t) = h # list_of_linked t"

section \<open>Schema nodes\<close>

text \<open>
  The classes of schema.py. \<open>InternalK\<close> is a plain \<open>InternalNode\<close>. The \<open>parent\<close>
  reference is read by the modelled code only as \<open>self.parent.ns\<close> (in \<open>qname\<close>), so
  the node keeps that namespace. A terminal node has no \<open>children\<close> attribute.
\<close>

datatype node_kind =
    InternalK | ContainerK | ListK | ChoiceK | CaseK
  | LeafK | LeafListK | AnydataK | AnyxmlK

datatype schema_node =
  SchemaNode (sn_kind: node_kind) (sn_name: string) (sn_ns: "string option")
    (sn_parent_ns: "string option") (sn_children: "schema_node list")

text \<open>\<open>isinstance(c, InternalNode)\<close>, \<open>isinstance(c, DataNode)\<close>\<close>

definition is_InternalNode :: "schema_node \<Rightarrow> bool" where
  "is_InternalNode c = (sn_kind c \<in> {InternalK, ContainerK, ListK, ChoiceK, CaseK})"

definition is_DataNode :: "schema_node \<Rightarrow> bool" where
  "is_DataNode c = (sn_kind c \<in> {ContainerK, ListK, LeafK, LeafListK, AnydataK, AnyxmlK})"

subsection \<open>InternalNode.get_data_child\<close>

text \<open>\<open>ns if ns else self.ns\<close>: \<open>None\<close> and the empty string are false.\<close>

definition resolve_ns :: "string option \<Rightarrow> string option \<Rightarrow> string option" where
  "resolve_ns ns self_ns = (if ns = None \<or> ns = Some [] then self_ns else ns)"

text \<open>
  The loop over \<open>self.children\<close>: \<open>Inl c\<close> is the early \<open>return c\<close> of a data node
  with the name and namespace looked for; otherwise the candidates, where a child of that
  name that is no data node goes to the front (\<open>cands.insert(0, c)\<close>) and a choice or
  case goes to the end (\<open>cands.append(c)\<close>).
\<close>

fun scan_children ::
  "schema_node list \<Rightarrow> string \<Rightarrow> string option \<Rightarrow> schema_node list
     \<Rightarrow> schema_node + schema_node list" where
  "scan_children [] name ns cands = Inr cands"
| "scan_children (c # cs) name ns cands =
     (if sn_name c = name \<and> sn_ns c = ns then
        (if is_DataNode c then Inl c else scan_children cs name ns (c # cands))
      else if sn_kind c = ChoiceK \<or> sn_kind c = CaseK then
        scan_children cs name ns (cands @ [c])
      else scan_children cs name ns cands)"

lemma scan_children_cands:
  "scan_children cs name ns acc = Inr cands \<Longrightarrow> set cands \<subseteq> set cs \<union> set acc"
proof (induction cs arbitrary: acc)
  case Nil
  then show ?case by simp
next
  case (Cons c cs)
  from Cons.prems consider
      "scan_children cs name ns (c # acc) = Inr cands"
    | "scan_children cs name ns (acc @ [c]) = Inr cands"
    | "scan_children cs name ns acc = Inr cands"
    by (auto split: if_splits)
  then show ?case
  proof cases
    case 1
    from Cons.IH [OF this] show ?thesis by auto
  next
    case 2
    from Cons.IH [OF this] show ?thesis by auto
  next
    case 3
    from Cons.IH [OF this] show ?thesis by auto
  qed
qed

lemma size_child: "c \<in> set cs \<Longrightarrow> size c < Suc (size_list size cs)"
  by (induction cs) auto

text \<open>The loop over the candidates returns the first result that is not \<open>None\<close>.\<close>

fun first_found :: "'a option list \<Rightarrow> 'a option" where
  "first_found [] = None"
| "first_found (None # rs) = first_found rs"
| "first_found (Some r # rs) = Some r"

function get_data_child :: "schema_node \<Rightarrow> string \<Rightarrow> string option \<Rightarrow> schema_node option" where
  "get_data_child self name ns =
     (case scan_children (sn_children self) name (resolve_ns ns (sn_ns self)) [] of
        Inl c \<Rightarrow> Some c
      | Inr cands \<Rightarrow>
          first_found (map (\<lambda>c. get_data_child c name (resolve_ns ns (sn_ns self))) cands))"
  by pat_completeness auto
termination
proof (relation "measure (\<lambda>(self, name, ns). size self)", goal_cases)
  case 1
  show ?case by simp
next
  case (2 self name ns cands c)
  then have "c \<in> set (sn_children self)"
    using scan_children_cands by fastforce
  then show ?case
    by (cases self) (auto dest: size_child)
qed

declare get_data_child.simps [simp del]

text \<open>
  The property \<open>qname\<close> of a schema node: the name, with the namespace in front where it
  differs from the parent's. Concatenating \<open>None\<close> with a string is a TypeError.
\<close>

definition qname :: "schema_node \<Rightarrow> error + string" where
  "qname self =
     (if sn_ns self = sn_parent_ns self then Inr (sn_name self)
      else (case sn_ns self of
              None \<Rightarrow> Inl TypeError
            | Some n \<Rightarrow> Inr (n @ '':'' @ sn_name self)))"

text \<open>\<open>s.partition(":")\<close>: the part before the first colon, the separator found, the rest.\<close>

definition partition_colon :: "string \<Rightarrow> string \<times> string \<times> string" where
  "partition_colon s =
     (if CHR '':'' \<in> set s
      then (takeWhile (\<lambda>c. c \<noteq> CHR '':'') s, '':'', tl (dropWhile (\<lambda>c. c \<noteq> CHR '':'') s))
      else (s, [], []))"

text \<open>
  Modelled from the spec: \<open>_iname2qname\<close> is called by instance.py and is not among the
  source files. An instance name is \<open>module:local\<close> at a namespace crossing and
  \<open>local\<close> otherwise, in which case the namespace is the current node's; the property
  \<open>ObjectMember.qual_name\<close> of instance.py splits a name the same way.
\<close>

definition iname2qname :: "schema_node \<Rightarrow> string \<Rightarrow> string \<times> string option" where
  "iname2qname self iname =
     (case partition_colon iname of
        (p, s, loc) \<Rightarrow> if s = [] then (p, sn_ns self) else (loc, Some p))"

subsection \<open>from_raw\<close>

text \<open>
  \<open>from_raw\<close> is defined by four classes: \<open>InternalNode\<close>, \<open>ListNode\<close>,
  \<open>TerminalNode\<close> and \<open>LeafListNode\<close>. \<open>class_of\<close> is the class whose method a call
  \<open>cn.from_raw(...)\<close> runs; \<open>ListNode.from_raw\<close> calls the method of \<open>InternalNode\<close>
  through \<open>super()\<close> on each entry.
\<close>

datatype node_class = InternalNodeC | ListNodeC | TerminalNodeC | LeafListNodeC

fun class_of :: "node_kind \<Rightarrow> node_class" where
  "class_of ListK = ListNodeC"
| "class_of LeafListK = LeafListNodeC"
| "class_of LeafK = TerminalNodeC"
| "class_of AnydataK = TerminalNodeC"
| "class_of AnyxmlK = TerminalNodeC"
| "class_of k = InternalNodeC"

text \<open>The results of a loop that stops at the first exception.\<close>

fun collect :: "(error + 'a) list \<Rightarrow> error + 'a list" where
  "collect [] = Inr []"
| "collect (Inl e # rs) = Inl e"
| "collect (Inr x # rs) = (case collect rs of Inl e \<Rightarrow> Inl e | Inr xs \<Rightarrow> Inr (x # xs))"

text \<open>
  \<open>from_raw_in cls self val ns now\<close> is the body of \<open>cls.from_raw(self, val, ns)\<close>, with
  \<open>now\<close> the clock read by \<open>time_stamp()\<close>. \<open>from_raw_loop\<close> is the loop
  \<open>for qn in val\<close> of \<open>InternalNode.from_raw\<close>: its state is the namespace \<open>ns\<close>,
  which a key with a prefix overwrites for the keys after it, and the members stored in
  \<open>res\<close> so far. The right-hand side of \<open>res[cn.qname] = cn.from_raw(val[qn])\<close> is
  evaluated first, and \<open>cn\<close> is \<open>None\<close> when no data child is found: reading
  \<open>cn.from_raw\<close> is then an AttributeError. A key that is no string has no
  \<open>partition\<close> (AttributeError).
\<close>

function from_raw_in ::
    "node_class \<Rightarrow> schema_node \<Rightarrow> val \<Rightarrow> string option \<Rightarrow> timestamp \<Rightarrow> error + val"
  and from_raw_loop ::
    "schema_node \<Rightarrow> val \<Rightarrow> val list \<Rightarrow> string option \<Rightarrow> (string \<times> val) list \<Rightarrow> timestamp
       \<Rightarrow> error + (string \<times> val) list" where
  "from_raw_in cls self val ns now =
     (case cls of
        TerminalNodeC \<Rightarrow> Inr val
      | LeafListNodeC \<Rightarrow>
          (case py_iter val of Inl e \<Rightarrow> Inl e | Inr ens \<Rightarrow> Inr (ArrayValue ens now))
      | ListNodeC \<Rightarrow>
          (case py_iter val of
             Inl e \<Rightarrow> Inl e
           | Inr ens \<Rightarrow>
               (case collect (map (\<lambda>en. from_raw_in InternalNodeC self en ns now) ens) of
                  Inl e \<Rightarrow> Inl e
                | Inr res \<Rightarrow> Inr (ArrayValue res now)))
      | InternalNodeC \<Rightarrow>
          (case py_iter val of
             Inl e \<Rightarrow> Inl e
           | Inr qns \<Rightarrow>
               (case from_raw_loop self val qns ns [] now of
                  Inl e \<Rightarrow> Inl e
                | Inr res \<Rightarrow> Inr (ObjectValue res now))))"
| "from_raw_loop self val [] ns res now = Inr res"
| "from_raw_loop self val (qn # qns) ns res now =
     (case qn of
        Scalar (SStr q) \<Rightarrow>
          (case partition_colon q of
             (p, s, loc0) \<Rightarrow>
               (let ns' = (if s = [] then ns else Some p);
                    loc = (if s = [] then p else loc0)
                in case get_data_child self loc ns' of
                     None \<Rightarrow> Inl AttributeError
                   | Some cn \<Rightarrow>
                       (case py_getitem val (Name q) of
                          Inl e \<Rightarrow> Inl e
                        | Inr w \<Rightarrow>
                            (case from_raw_in (class_of (sn_kind cn)) cn w None now of
                               Inl e \<Rightarrow> Inl e
                             | Inr d \<Rightarrow>
                                 (case qname cn of
                                    Inl e \<Rightarrow> Inl e
                                  | Inr n \<Rightarrow>
                                      from_raw_loop self val qns ns' (AList.update n d res) now)))))
      | _ \<Rightarrow> Inl AttributeError)"
  by pat_completeness auto
termination
proof (relation "inv_image (less_than <*lex*> less_than <*lex*> less_than)
    (\<lambda>x. case x of
       Inl (cls, self, val, ns, now) \<Rightarrow> (size val, if cls = ListNodeC then 2 else (1::nat), 0::nat)
     | Inr (self, val, qns, ns, res, now) \<Rightarrow> (size val, 0, length qns))", goal_cases)
  case 1
  show ?case by (intro wf_inv_image wf_lex_prod wf_less_than)
next
  case prems: 2
  then show ?case by simp
next
  case prems: 3
  from prems(1) py_iter_size [OF prems(2) prems(3)] show ?case by auto
next
  case prems: 4
  then show ?case
    by (auto dest: py_getitem_Name_size)
next
  case 5
  then show ?case by simp
qed


text \<open>\<open>self.from_raw(val)\<close> as a caller writes it: the method of the node's class,
  \<open>ns\<close> left at its default \<open>None\<close>.\<close>

declare from_raw_in.simps [simp del]

definition from_raw :: "schema_node \<Rightarrow> val \<Rightarrow> timestamp \<Rightarrow> error + val" where
  "from_raw self val now = from_raw_in (class_of (sn_kind self)) self val None now"

section \<open>Instance nodes\<close>

text \<open>
  \<open>RootNode\<close>, \<open>ObjectMember\<close> and \<open>ArrayEntry\<close>. The last component of \<open>path\<close> is
  the key of the node: \<open>name\<close> of an object member, \<open>index\<close> of an array entry.
\<close>

datatype instance_node =
    RootNode val schema_node timestamp
  | ObjectMember string "(string \<times> val) list" val instance_node schema_node timestamp
  | ArrayEntry int "val linked_list" "val linked_list" val instance_node schema_node timestamp

fun node_value :: "instance_node \<Rightarrow> val" where
  "node_value (RootNode v sn ts) = v"
| "node_value (ObjectMember name sibs v p sn ts) = v"
| "node_value (ArrayEntry i bef aft v p sn ts) = v"

fun node_schema :: "instance_node \<Rightarrow> schema_node" where
  "node_schema (RootNode v sn ts) = sn"
| "node_schema (ObjectMember name sibs v p sn ts) = sn"
| "node_schema (ArrayEntry i bef aft v p sn ts) = sn"

fun node_timestamp :: "instance_node \<Rightarrow> timestamp" where
  "node_timestamp (RootNode v sn ts) = ts"
| "node_timestamp (ObjectMember name sibs v p sn ts) = ts"
| "node_timestamp (ArrayEntry i bef aft v p sn ts) = ts"

text \<open>\<open>path\<close>: the keys from the root down to the node.\<close>

fun path :: "instance_node \<Rightarrow> instance_key list" where
  "path (RootNode v sn ts) = []"
| "path (ObjectMember name sibs v p sn ts) = path p @ [Name name]"
| "path (ArrayEntry i bef aft v p sn ts) = path p @ [Index i]"

subsection \<open>ArrayEntry.previous, ArrayEntry.next\<close>

text \<open>Only \<open>ArrayEntry\<close> has the two methods.\<close>

fun previous_entry :: "instance_node \<Rightarrow> error + instance_node" where
  "previous_entry (ArrayEntry i bef aft v p sn ts) =
     (case pop bef of
        Inl e \<Rightarrow> (if e = IndexError then Inl NonexistentInstance else Inl e)
      | Inr (newval, nbef) \<Rightarrow> Inr (ArrayEntry (i - 1) nbef (cons aft v) newval p sn ts))"
| "previous_entry n = Inl AttributeError"

fun next_entry :: "instance_node \<Rightarrow> error + instance_node" where
  "next_entry (ArrayEntry i bef aft v p sn ts) =
     (case pop aft of
        Inl e \<Rightarrow> (if e = IndexError then Inl NonexistentInstance else Inl e)
      | Inr (newval, naft) \<Rightarrow> Inr (ArrayEntry (i + 1) (cons bef v) naft newval p sn ts))"
| "next_entry n = Inl AttributeError"

text \<open>Sequencing of two calls: the second runs on the result of the first, an exception
  of the first propagates.\<close>

definition and_then :: "error + 'a \<Rightarrow> ('a \<Rightarrow> error + 'b) \<Rightarrow> error + 'b" where
  "and_then r f = (case r of Inl e \<Rightarrow> Inl e | Inr x \<Rightarrow> f x)"

subsection \<open>Descending: __getitem__, _member, _entry\<close>

text \<open>
  \<open>"member " + name\<close> and \<open>"item " + key\<close>, the detail of a NonexistentInstance: a
  string cannot be concatenated with an integer key (TypeError).
\<close>

fun str_concat_key :: "string \<Rightarrow> instance_key \<Rightarrow> error + string" where
  "str_concat_key s (Name k) = Inr (s @ k)"
| "str_concat_key s (Index i) = Inl TypeError"

text \<open>
  \<open>_member_schema_node\<close>: the data child of the receiver's schema node that the
  member name designates. Only an internal node has \<open>get_data_child\<close>. The exception is
  constructed from three arguments, the schema node and the two components of \<open>qname\<close>.
\<close>

definition member_schema_node :: "instance_node \<Rightarrow> string \<Rightarrow> error + schema_node" where
  "member_schema_node self name =
     (case iname2qname (node_schema self) name of
        (loc, ns) \<Rightarrow>
          if is_InternalNode (node_schema self) then
            (case get_data_child (node_schema self) loc ns of
               None \<Rightarrow> Inl (new_NonexistentSchemaNode 3)
             | Some res \<Rightarrow> Inr res)
          else Inl AttributeError)"

text \<open>
  \<open>_member\<close>. The arguments of \<open>ObjectMember(...)\<close> are evaluated in order:
  \<open>sibs.pop(name)\<close> raises KeyError for a missing name (and for an integer key), and the
  handler builds \<open>"member " + name\<close>; then \<open>_member_schema_node\<close>, whose exceptions
  are not caught. \<open>siblings\<close> is the copy of the object without the member. The callers
  (\<open>__getitem__\<close>, \<open>put_member\<close>) reach the method only with an ObjectValue.
\<close>

definition inst_member :: "instance_node \<Rightarrow> instance_key \<Rightarrow> error + instance_node" where
  "inst_member self key =
     (case node_value self of
        ObjectValue ms ts \<Rightarrow>
          (case key of
             Name name \<Rightarrow>
               (case map_of ms name of
                  None \<Rightarrow>
                    (case str_concat_key ''member '' key of
                       Inl e \<Rightarrow> Inl e
                     | Inr detail \<Rightarrow> Inl NonexistentInstance)
                | Some v \<Rightarrow>
                    (case member_schema_node self name of
                       Inl e \<Rightarrow> Inl e
                     | Inr csn \<Rightarrow>
                         Inr (ObjectMember name (AList.delete name ms) v self csn ts)))
           | Index i \<Rightarrow>
               (case str_concat_key ''member '' key of
                  Inl e \<Rightarrow> Inl e
                | Inr detail \<Rightarrow> Inl NonexistentInstance))
      | _ \<Rightarrow> Inl AttributeError)"

text \<open>
  \<open>_entry\<close>. The comparison \<open>index < 0\<close> stands before the \<open>try\<close>: for a string key
  it is an uncaught TypeError. \<open>before\<close> is \<open>from_list(val[:i])\<close> and \<open>after\<close> is
  \<open>from_list(val[i+1:])\<close>; \<open>val[index]\<close> raises IndexError out of range, which the
  handler turns into NonexistentInstance. The callers reach the method only with an
  ArrayValue.
\<close>

definition inst_entry :: "instance_node \<Rightarrow> instance_key \<Rightarrow> error + instance_node" where
  "inst_entry self key =
     (case node_value self of
        ArrayValue val ts \<Rightarrow>
          (case key of
             Name name \<Rightarrow> Inl TypeError
           | Index index \<Rightarrow>
               (let i = (if index < 0 then int (length val) + index else index)
                in case list_getitem val index of
                     Inl e \<Rightarrow> Inl NonexistentInstance
                   | Inr v \<Rightarrow>
                       Inr (ArrayEntry i (from_list (slice_to val i))
                              (from_list (slice_from val (i + 1))) v self (node_schema self) ts)))
      | _ \<Rightarrow> Inl AttributeError)"

definition getitem :: "instance_node \<Rightarrow> instance_key \<Rightarrow> error + instance_node" where
  "getitem self key =
     (case node_value self of
        ObjectValue ms ts \<Rightarrow> inst_member self key
      | ArrayValue vs ts \<Rightarrow> inst_entry self key
      | _ \<Rightarrow> Inl InstanceValueError)"

subsection \<open>Ascending: _zip, _copy, up\<close>

text \<open>
  \<open>ObjectMember._zip\<close> stores the member into a copy of the siblings (a dict
  assignment: a new key goes to the end); \<open>ArrayEntry._zip\<close> is the reversed
  \<open>before\<close>, the value, and \<open>after\<close>. A root node has no \<open>_zip\<close>.
\<close>

fun zip_node :: "instance_node \<Rightarrow> error + val" where
  "zip_node (ObjectMember name sibs v p sn ts) = Inr (ObjectValue (AList.update name v sibs) ts)"
| "zip_node (ArrayEntry i bef aft v p sn ts) =
     Inr (ArrayValue (rev (list_of_linked bef) @ [v] @ list_of_linked aft) ts)"
| "zip_node (RootNode v sn ts) = Inl AttributeError"

text \<open>
  \<open>_copy(newval, newts)\<close>: the timestamp is \<open>newts\<close> if given, else the timestamp of a
  structured value, else (for an object member or array entry) the clock \<open>now\<close>. A root
  node reads \<open>newval.timestamp\<close> in any case.
\<close>

definition copy_ts :: "timestamp \<Rightarrow> val \<Rightarrow> timestamp option \<Rightarrow> timestamp" where
  "copy_ts now newval newts =
     (case newts of
        Some t \<Rightarrow> t
      | None \<Rightarrow>
          (case newval of
             ObjectValue ms t \<Rightarrow> t
           | ArrayValue vs t \<Rightarrow> t
           | _ \<Rightarrow> now))"

fun copy_node :: "timestamp \<Rightarrow> instance_node \<Rightarrow> val \<Rightarrow> timestamp option \<Rightarrow> error + instance_node" where
  "copy_node now (RootNode v sn ts) newval newts =
     (case newts of
        Some t \<Rightarrow> Inr (RootNode newval sn t)
      | None \<Rightarrow>
          (case value_timestamp newval of
             Inl e \<Rightarrow> Inl e
           | Inr t \<Rightarrow> Inr (RootNode newval sn t)))"
| "copy_node now (ObjectMember name sibs v p sn ts) newval newts =
     Inr (ObjectMember name sibs newval p sn (copy_ts now newval newts))"
| "copy_node now (ArrayEntry i bef aft v p sn ts) newval newts =
     Inr (ArrayEntry i bef aft newval p sn (copy_ts now newval newts))"

fun parinst :: "instance_node \<Rightarrow> instance_node option" where
  "parinst (RootNode v sn ts) = None"
| "parinst (ObjectMember name sibs v p sn ts) = Some p"
| "parinst (ArrayEntry i bef aft v p sn ts) = Some p"

definition up :: "timestamp \<Rightarrow> instance_node \<Rightarrow> error + instance_node" where
  "up now self =
     (case parinst self of
        None \<Rightarrow> Inl NonexistentInstance
      | Some p \<Rightarrow>
          (case zip_node self of
             Inl e \<Rightarrow> Inl e
           | Inr z \<Rightarrow> copy_node now p z (Some (max (node_timestamp self) (node_timestamp p)))))"


subsection \<open>Iteration\<close>







subsection \<open>Mutation: insert_before, insert_after, delete_item, put_member\<close>

text \<open>
  \<open>_cook_value\<close> decodes a raw value with \<open>super(SequenceNode, schema_node).from_raw\<close>.
  The class \<open>SequenceNode\<close> is not among the source files, so that decoder is the
  parameter \<open>entry_from_raw\<close>.
\<close>

definition cook_value ::
  "(schema_node \<Rightarrow> val \<Rightarrow> error + val) \<Rightarrow> schema_node \<Rightarrow> val \<Rightarrow> bool \<Rightarrow> error + val" where
  "cook_value entry_from_raw sn v raw = (if raw then entry_from_raw sn v else Inr v)"

fun insert_before ::
  "(schema_node \<Rightarrow> val \<Rightarrow> error + val) \<Rightarrow> timestamp \<Rightarrow> instance_node \<Rightarrow> val \<Rightarrow> bool
     \<Rightarrow> error + instance_node" where
  "insert_before dec now (ArrayEntry i bef aft v p sn ts) newv raw =
     (case cook_value dec sn newv raw of
        Inl e \<Rightarrow> Inl e
      | Inr cooked \<Rightarrow> Inr (ArrayEntry i bef (cons aft v) cooked p sn now))"
| "insert_before dec now n newv raw = Inl AttributeError"

fun insert_after ::
  "(schema_node \<Rightarrow> val \<Rightarrow> error + val) \<Rightarrow> timestamp \<Rightarrow> instance_node \<Rightarrow> val \<Rightarrow> bool
     \<Rightarrow> error + instance_node" where
  "insert_after dec now (ArrayEntry i bef aft v p sn ts) newv raw =
     (case cook_value dec sn newv raw of
        Inl e \<Rightarrow> Inl e
      | Inr cooked \<Rightarrow> Inr (ArrayEntry i (cons bef v) aft cooked p sn now))"
| "insert_after dec now n newv raw = Inl AttributeError"

text \<open>\<open>del newval[key]\<close> on the copy of the value; the copy keeps the timestamp.\<close>

fun py_delitem :: "val \<Rightarrow> instance_key \<Rightarrow> error + val" where
  "py_delitem (ObjectValue ms ts) (Name k) =
     (case map_of ms k of None \<Rightarrow> Inl KeyError | Some v \<Rightarrow> Inr (ObjectValue (AList.delete k ms) ts))"
| "py_delitem (ObjectValue ms ts) (Index i) = Inl KeyError"
| "py_delitem (ArrayValue vs ts) (Index i) =
     (case list_delitem vs i of Inl e \<Rightarrow> Inl e | Inr vs' \<Rightarrow> Inr (ArrayValue vs' ts))"
| "py_delitem (ArrayValue vs ts) (Name k) = Inl TypeError"
| "py_delitem (PyDict ms) (Name k) =
     (case map_of ms k of None \<Rightarrow> Inl KeyError | Some v \<Rightarrow> Inr (PyDict (AList.delete k ms)))"
| "py_delitem (PyDict ms) (Index i) = Inl KeyError"
| "py_delitem (PyList vs) (Index i) =
     (case list_delitem vs i of Inl e \<Rightarrow> Inl e | Inr vs' \<Rightarrow> Inr (PyList vs'))"
| "py_delitem (PyList vs) (Name k) = Inl TypeError"
| "py_delitem (Scalar s) k = Inl TypeError"

definition delete_item :: "timestamp \<Rightarrow> instance_node \<Rightarrow> instance_key \<Rightarrow> error + instance_node" where
  "delete_item now self key =
     (if \<not> is_StructuredValue (node_value self) then Inl InstanceValueError
      else (case py_delitem (node_value self) key of
              Inl e \<Rightarrow>
                (if e = KeyError \<or> e = IndexError \<or> e = TypeError then
                   (case str_concat_key ''item '' key of
                      Inl e' \<Rightarrow> Inl e'
                    | Inr detail \<Rightarrow> Inl NonexistentInstance)
                 else Inl e)
            | Inr newval \<Rightarrow> copy_node now self newval None))"

definition put_member ::
  "timestamp \<Rightarrow> instance_node \<Rightarrow> string \<Rightarrow> val \<Rightarrow> bool \<Rightarrow> error + instance_node" where
  "put_member now self name v raw =
     (case node_value self of
        ObjectValue ms ts \<Rightarrow>
          (case member_schema_node self name of
             Inl e \<Rightarrow> Inl e
           | Inr csn \<Rightarrow>
               (case (if raw then from_raw csn v now else Inr v) of
                  Inl e \<Rightarrow> Inl e
                | Inr cooked \<Rightarrow>
                    (case copy_node now self (ObjectValue (AList.update name cooked ms) ts) None of
                       Inl e \<Rightarrow> Inl e
                     | Inr c \<Rightarrow> inst_member c (Name name))))
      | _ \<Rightarrow> Inl InstanceValueError)"

section \<open>Instance routes\<close>

text \<open>The selectors of an instance route, with the key, value or keys each holds.\<close>

datatype selector =
    MemberName string
  | EntryIndex int
  | EntryValue scalar
  | EntryKeys "(string \<times> scalar) list"

text \<open>
  Python's \<open>==\<close> between scalars (\<open>True == 1\<close> holds), and between any value and a
  scalar: an object or array never equals a scalar.
\<close>

fun scalar_eq :: "scalar \<Rightarrow> scalar \<Rightarrow> bool" where
  "scalar_eq (SBool a) (SBool b) = (a = b)"
| "scalar_eq (SInt a) (SInt b) = (a = b)"
| "scalar_eq (SStr a) (SStr b) = (a = b)"
| "scalar_eq (SBool a) (SInt b) = (b = (if a then 1 else 0))"
| "scalar_eq (SInt a) (SBool b) = (a = (if b then 1 else 0))"
| "scalar_eq a b = False"

fun py_eq_scalar :: "val \<Rightarrow> scalar \<Rightarrow> bool" where
  "py_eq_scalar (Scalar t) s = scalar_eq t s"
| "py_eq_scalar v s = False"

text \<open>
  \<open>arr.index(value)\<close>: the first position of an equal element of a list, or of the
  substring in a string; ValueError when there is none. A dict, a number and a boolean
  have no \<open>index\<close> method.
\<close>

fun list_index :: "val list \<Rightarrow> scalar \<Rightarrow> error + int" where
  "list_index [] s = Inl ValueError"
| "list_index (v # vs) s =
     (if py_eq_scalar v s then Inr 0
      else (case list_index vs s of Inl e \<Rightarrow> Inl e | Inr i \<Rightarrow> Inr (i + 1)))"

fun str_find :: "string \<Rightarrow> string \<Rightarrow> error + int" where
  "str_find [] sub = (if sub = [] then Inr 0 else Inl ValueError)"
| "str_find (c # cs) sub =
     (if take (length sub) (c # cs) = sub then Inr 0
      else (case str_find cs sub of Inl e \<Rightarrow> Inl e | Inr i \<Rightarrow> Inr (i + 1)))"

fun py_index :: "val \<Rightarrow> scalar \<Rightarrow> error + int" where
  "py_index (ArrayValue vs ts) s = list_index vs s"
| "py_index (PyList vs) s = list_index vs s"
| "py_index (Scalar (SStr t)) (SStr sub) = str_find t sub"
| "py_index (Scalar (SStr t)) s = Inl TypeError"
| "py_index v s = Inl AttributeError"

text \<open>
  \<open>EntryKeys.peek_step\<close>: \<open>keys_match\<close> is the inner loop over \<open>self.keys\<close> with
  \<open>flag\<close> as its result, \<open>peek_keys\<close> the outer loop over the entries. Neither loop is
  inside a \<open>try\<close>. Falling off the end of the method returns \<open>None\<close>.
\<close>

fun keys_match :: "val \<Rightarrow> (string \<times> scalar) list \<Rightarrow> error + bool" where
  "keys_match en [] = Inr True"
| "keys_match en ((k, s) # ks) =
     (case py_getitem en (Name k) of
        Inl e \<Rightarrow> Inl e
      | Inr v \<Rightarrow> if \<not> py_eq_scalar v s then Inr False else keys_match en ks)"

fun peek_keys :: "val list \<Rightarrow> (string \<times> scalar) list \<Rightarrow> error + val option" where
  "peek_keys [] keys = Inr None"
| "peek_keys (en # ens) keys =
     (case keys_match en keys of
        Inl e \<Rightarrow> Inl e
      | Inr flag \<Rightarrow> if flag then Inr (Some en) else peek_keys ens keys)"

text \<open>
  \<open>InstanceSelector.peek_step\<close>, inherited by \<open>MemberName\<close> and \<open>EntryIndex\<close>:
  \<open>val[self.key]\<close>, with IndexError, KeyError and TypeError caught. The result is
  \<open>Some\<close> value or \<open>None\<close>.
\<close>

definition peek_key :: "instance_key \<Rightarrow> val \<Rightarrow> error + val option" where
  "peek_key key val =
     (case py_getitem val key of
        Inl e \<Rightarrow> if e = IndexError \<or> e = KeyError \<or> e = TypeError then Inr None else Inl e
      | Inr v \<Rightarrow> Inr (Some v))"

fun peek_step :: "selector \<Rightarrow> val \<Rightarrow> error + val option" where
  "peek_step (MemberName key) val = peek_key (Name key) val"
| "peek_step (EntryIndex key) val = peek_key (Index key) val"
| "peek_step (EntryValue v) arr =
     (case py_index arr v of
        Inl e \<Rightarrow> if e = ValueError then Inr None else Inl e
      | Inr i \<Rightarrow>
          (case py_getitem arr (Index i) of
             Inl e \<Rightarrow> if e = ValueError then Inr None else Inl e
           | Inr x \<Rightarrow> Inr (Some x)))"
| "peek_step (EntryKeys keys) arr =
     (case py_iter arr of Inl e \<Rightarrow> Inl e | Inr ens \<Rightarrow> peek_keys ens keys)"

section \<open>Instance identifier parser\<close>

text \<open>
  Modelled from the spec: the class \<open>Parser\<close> (module parser), the base of the path
  parsers, is not among the source files, and the spec names only its exceptions. A
  parser is the input text and an offset into it. \<open>peek\<close> reads the next character
  and raises EndOfInput at the end; \<open>char\<close> and \<open>one_of\<close> consume an expected
  character and raise UnexpectedInput for another one; \<open>skip_ws\<close> skips blanks, tabs
  and line ends; \<open>unsigned_integer\<close> reads a non-empty run of decimal digits;
  \<open>yang_identifier\<close> reads a letter or underscore followed by letters, digits,
  underscores, dots and hyphens; \<open>prefixed_name\<close> reads \<open>[prefix:]name\<close> and returns
  the name and the prefix; \<open>up_to\<close> returns the text before the next occurrence of a
  terminator and moves behind it, raising EndOfInput when there is none.
\<close>

record parser =
  input :: string
  offset :: nat

definition rest_of :: "parser \<Rightarrow> string" where
  "rest_of p = drop (offset p) (input p)"

definition advance :: "nat \<Rightarrow> parser \<Rightarrow> parser" where
  "advance k p = p\<lparr>offset := offset p + k\<rparr>"

text \<open>A parser that has read on in the same text.\<close>

definition moved :: "parser \<Rightarrow> parser \<Rightarrow> bool" where
  "moved p p' = (input p' = input p \<and> offset p \<le> offset p')"

definition at_end :: "parser \<Rightarrow> bool" where
  "at_end p = (length (input p) \<le> offset p)"

definition peek :: "parser \<Rightarrow> error + char" where
  "peek p = (case rest_of p of [] \<Rightarrow> Inl EndOfInput | c # cs \<Rightarrow> Inr c)"

definition char :: "char \<Rightarrow> parser \<Rightarrow> error + parser" where
  "char c p =
     (case peek p of
        Inl e \<Rightarrow> Inl e
      | Inr x \<Rightarrow> if x = c then Inr (advance 1 p) else Inl UnexpectedInput)"

definition is_ws :: "char \<Rightarrow> bool" where
  "is_ws c = (c \<in> {CHR '' '', CHR 0x09, CHR 0x0A, CHR 0x0D})"

definition skip_ws :: "parser \<Rightarrow> parser" where
  "skip_ws p = advance (length (takeWhile is_ws (rest_of p))) p"

definition is_digit :: "char \<Rightarrow> bool" where
  "is_digit c = (c \<in> set ''0123456789'')"

definition digit_value :: "char \<Rightarrow> int" where
  "digit_value c = int (of_char c) - 48"

definition int_of_digits :: "string \<Rightarrow> int" where
  "int_of_digits ds = foldl (\<lambda>a c. 10 * a + digit_value c) 0 ds"

definition unsigned_integer :: "parser \<Rightarrow> error + (int \<times> parser)" where
  "unsigned_integer p =
     (let ds = takeWhile is_digit (rest_of p)
      in if ds = [] then Inl UnexpectedInput
         else Inr (int_of_digits ds, advance (length ds) p))"

definition ident_start :: "char \<Rightarrow> bool" where
  "ident_start c =
     (c \<in> set ''abcdefghijklmnopqrstuvwxyzABCDEFGHIJKLMNOPQRSTUVWXYZ_'')"

definition ident_char :: "char \<Rightarrow> bool" where
  "ident_char c = (ident_start c \<or> is_digit c \<or> c = CHR ''.'' \<or> c = CHR ''-'')"

definition yang_identifier :: "parser \<Rightarrow> error + (string \<times> parser)" where
  "yang_identifier p =
     (case rest_of p of
        [] \<Rightarrow> Inl UnexpectedInput
      | c # cs \<Rightarrow>
          if ident_start c
          then Inr (c # takeWhile ident_char cs, advance (Suc (length (takeWhile ident_char cs))) p)
          else Inl UnexpectedInput)"

definition prefixed_name :: "parser \<Rightarrow> error + ((string \<times> string option) \<times> parser)" where
  "prefixed_name p =
     (case yang_identifier p of
        Inl e \<Rightarrow> Inl e
      | Inr (i1, p1) \<Rightarrow>
          (case peek p1 of
             Inl e \<Rightarrow> if e = EndOfInput then Inr ((i1, None), p1) else Inl e
           | Inr nxt \<Rightarrow>
               if nxt = CHR '':'' then
                 (case yang_identifier (advance 1 p1) of
                    Inl e \<Rightarrow> Inl e
                  | Inr (i2, p2) \<Rightarrow> Inr ((i2, Some i1), p2))
               else Inr ((i1, None), p1)))"

definition one_of :: "string \<Rightarrow> parser \<Rightarrow> error + (char \<times> parser)" where
  "one_of chars p =
     (case peek p of
        Inl e \<Rightarrow> Inl e
      | Inr c \<Rightarrow> if c \<in> set chars then Inr (c, advance 1 p) else Inl UnexpectedInput)"

definition up_to :: "char \<Rightarrow> parser \<Rightarrow> error + (string \<times> parser)" where
  "up_to term p =
     (if term \<in> set (rest_of p)
      then Inr (takeWhile (\<lambda>c. c \<noteq> term) (rest_of p),
                advance (Suc (length (takeWhile (\<lambda>c. c \<noteq> term) (rest_of p)))) p)
      else Inl EndOfInput)"

text \<open>
  Modelled from the spec: the method \<open>iname\<close> of a schema node is called by
  instance.py and is not among the source files. The instance name is \<open>module:local\<close>
  where the namespace differs from the parent's and \<open>local\<close> otherwise, which is what
  the property \<open>qname\<close> of schema.py computes.
\<close>

definition iname :: "schema_node \<Rightarrow> error + string" where
  "iname self = qname self"

text \<open>
  \<open>InstancePathParser._member_name\<close>: the name is parsed first, then the data child is
  looked up in the namespace \<open>ns if ns else sn.ns\<close>.
\<close>

definition member_name :: "schema_node \<Rightarrow> parser \<Rightarrow> error + ((selector \<times> schema_node) \<times> parser)" where
  "member_name sn p =
     (case prefixed_name p of
        Inl e \<Rightarrow> Inl e
      | Inr ((name, ns), p1) \<Rightarrow>
          if is_InternalNode sn then
            (case get_data_child sn name (resolve_ns ns (sn_ns sn)) of
               None \<Rightarrow> Inl (new_NonexistentSchemaNode 3)
             | Some cn \<Rightarrow>
                 (case iname cn of
                    Inl e \<Rightarrow> Inl e
                  | Inr nm \<Rightarrow> Inr ((MemberName nm, cn), p1)))
          else Inl AttributeError)"

text \<open>
  \<open>InstanceIdParser._get_value\<close>: \<open>= 'text' ]\<close> with optional white space; the text
  is parsed by the type of the node \<open>tn\<close>. The type system is not among the source
  files: \<open>tn.type.parse_value\<close> is the parameter \<open>parse_value\<close>. \<open>tn\<close> is \<open>None\<close>
  when \<open>_key_predicates\<close> found no key node.
\<close>

definition get_value ::
  "(schema_node \<Rightarrow> string \<Rightarrow> error + scalar) \<Rightarrow> schema_node option \<Rightarrow> parser
     \<Rightarrow> error + (scalar \<times> parser)" where
  "get_value parse_value tn p =
     (case char (CHR ''='') (skip_ws p) of
        Inl e \<Rightarrow> Inl e
      | Inr p1 \<Rightarrow>
          (case one_of [CHR 0x27, CHR 0x22] (skip_ws p1) of
             Inl e \<Rightarrow> Inl e
           | Inr (quote, p2) \<Rightarrow>
               (case up_to quote p2 of
                  Inl e \<Rightarrow> Inl e
                | Inr (text, p3) \<Rightarrow>
                    (case char (CHR '']'') (skip_ws p3) of
                       Inl e \<Rightarrow> Inl e
                     | Inr p4 \<Rightarrow>
                         (case tn of
                            None \<Rightarrow> Inl AttributeError
                          | Some t \<Rightarrow>
                              (case parse_value t text of
                                 Inl e \<Rightarrow> Inl e
                               | Inr v \<Rightarrow> Inr (v, p4)))))))"

text \<open>
  \<open>InstanceIdParser._key_predicates\<close>: the loop \<open>while True\<close> reads one key
  predicate per round and goes on while a \<open>[\<close> follows. Each round consumes input; the
  loop is a recursion on fuel, and \<open>None\<close> stands for fuel that ran out.
\<close>

fun key_predicates ::
  "nat \<Rightarrow> (schema_node \<Rightarrow> string \<Rightarrow> error + scalar) \<Rightarrow> schema_node
     \<Rightarrow> (string \<times> scalar) list \<Rightarrow> parser \<Rightarrow> (error + (selector \<times> parser)) option" where
  "key_predicates 0 parse_value sn sel p = None"
| "key_predicates (Suc fuel) parse_value sn sel p =
     (case prefixed_name p of
        Inl e \<Rightarrow> Some (Inl e)
      | Inr ((name, ns), p1) \<Rightarrow>
          if is_InternalNode sn then
            (case get_value parse_value (get_data_child sn name ns) p1 of
               Inl e \<Rightarrow> Some (Inl e)
             | Inr (v, p2) \<Rightarrow>
                 (case get_data_child sn name ns of
                    None \<Rightarrow> Some (Inl AttributeError)
                  | Some knod \<Rightarrow>
                      (case iname knod of
                         Inl e \<Rightarrow> Some (Inl e)
                       | Inr nm \<Rightarrow>
                           (case peek p2 of
                              Inl e \<Rightarrow>
                                if e = EndOfInput
                                then Some (Inr (EntryKeys (AList.update nm v sel), p2))
                                else Some (Inl e)
                            | Inr nxt \<Rightarrow>
                                if nxt = CHR ''[''
                                then key_predicates fuel parse_value sn (AList.update nm v sel)
                                       (skip_ws (advance 1 p2))
                                else Some (Inr (EntryKeys (AList.update nm v sel), p2))))))
          else Some (Inl AttributeError))"

text \<open>
  The branch \<open>if next == "["\<close> of \<open>InstanceIdParser.parse\<close>, from \<open>self.offset += 1\<close>
  to the selector that is appended to the route: an index \<open>[n]\<close> when a digit follows, a
  value predicate for a leaf-list, key predicates otherwise.
\<close>

definition predicate ::
  "(schema_node \<Rightarrow> string \<Rightarrow> error + scalar) \<Rightarrow> schema_node \<Rightarrow> parser
     \<Rightarrow> (error + (selector \<times> parser)) option" where
  "predicate parse_value cn p =
     (let p1 = skip_ws (advance 1 p)
      in case peek p1 of
           Inl e \<Rightarrow> Some (Inl e)
         | Inr c \<Rightarrow>
             if is_digit c then
               (case unsigned_integer p1 of
                  Inl e \<Rightarrow> Some (Inl e)
                | Inr (n, p2) \<Rightarrow>
                    if n - 1 < 0 then Some (Inl UnexpectedInput)
                    else (case char (CHR '']'') (skip_ws p2) of
                            Inl e \<Rightarrow> Some (Inl e)
                          | Inr p3 \<Rightarrow> Some (Inr (EntryIndex (n - 1), p3))))
             else if sn_kind cn = LeafListK then
               (case char (CHR ''.'') p1 of
                  Inl e \<Rightarrow> Some (Inl e)
                | Inr p2 \<Rightarrow>
                    (case get_value parse_value (Some cn) p2 of
                       Inl e \<Rightarrow> Some (Inl e)
                     | Inr (v, p3) \<Rightarrow> Some (Inr (EntryValue v, p3))))
             else key_predicates (Suc (length (input p1))) parse_value cn [] p1)"

text \<open>
  \<open>InstanceIdParser.parse\<close>: the loop \<open>while True\<close>, with the schema node \<open>sn\<close> and
  the route \<open>res\<close> as its state. Each round consumes at least the slash; the loop is
  a recursion on fuel, of which \<open>parse\<close> supplies one more than the length of the
  text (\<open>parse_returns\<close> shows that this is enough). \<open>Context.schema\<close> is the
  parameter \<open>schema\<close>.
\<close>

fun parse_loop ::
  "nat \<Rightarrow> (schema_node \<Rightarrow> string \<Rightarrow> error + scalar) \<Rightarrow> schema_node \<Rightarrow> selector list
     \<Rightarrow> parser \<Rightarrow> (error + selector list) option" where
  "parse_loop 0 parse_value sn res p = None"
| "parse_loop (Suc fuel) parse_value sn res p =
     (case char (CHR ''/'') p of
        Inl e \<Rightarrow> Some (Inl e)
      | Inr p1 \<Rightarrow>
          (case member_name sn p1 of
             Inl e \<Rightarrow> Some (Inl e)
           | Inr ((mnam, cn), p2) \<Rightarrow>
               (case peek p2 of
                  Inl e \<Rightarrow> if e = EndOfInput then Some (Inr (res @ [mnam])) else Some (Inl e)
                | Inr nxt \<Rightarrow>
                    if nxt = CHR ''['' then
                      (case predicate parse_value cn p2 of
                         None \<Rightarrow> None
                       | Some (Inl e) \<Rightarrow> Some (Inl e)
                       | Some (Inr (sel, p3)) \<Rightarrow>
                           if at_end p3 then Some (Inr (res @ [mnam, sel]))
                           else parse_loop fuel parse_value cn (res @ [mnam, sel]) p3)
                    else parse_loop fuel parse_value cn (res @ [mnam]) p2)))"

definition parse ::
  "(schema_node \<Rightarrow> string \<Rightarrow> error + scalar) \<Rightarrow> schema_node \<Rightarrow> string
     \<Rightarrow> (error + selector list) option" where
  "parse parse_value schema text =
     parse_loop (Suc (length text)) parse_value schema [] \<lparr>input = text, offset = 0\<rparr>"

section \<open>Example inputs\<close>

text \<open>
  A container \<open>top\<close> of module \<open>m\<close> with the leaves \<open>a\<close> and \<open>b\<close>; a root node over
  the object \<open>{"a": 1, "b": 2}\<close>; root nodes over the arrays \<open>[10]\<close> and
  \<open>[1, 2, 3]\<close>.
\<close>

definition ex_schema :: schema_node where
  "ex_schema = SchemaNode ContainerK ''top'' (Some ''m'') None
     [SchemaNode LeafK ''a'' (Some ''m'') (Some ''m'') [],
      SchemaNode LeafK ''b'' (Some ''m'') (Some ''m'') []]"

definition ex_object :: instance_node where
  "ex_object = RootNode (ObjectValue [(''a'', Scalar (SInt 1)), (''b'', Scalar (SInt 2))] 0) ex_schema 0"

definition ex_single :: instance_node where
  "ex_single = RootNode (ArrayValue [Scalar (SInt 10)] 0)
     (SchemaNode LeafListK ''l'' (Some ''m'') None []) 0"

definition ex_array :: instance_node where
  "ex_array = RootNode (ArrayValue [Scalar (SInt 1), Scalar (SInt 2), Scalar (SInt 3)] 0)
     (SchemaNode LeafListK ''l'' (Some ''m'') None []) 0"

text \<open>
  A container with the leaf-list \<open>a\<close>, and a type that accepts every text as a string.
\<close>

definition ex_list_schema :: schema_node where
  "ex_list_schema = SchemaNode ContainerK ''top'' (Some ''m'') None
     [SchemaNode LeafListK ''a'' (Some ''m'') (Some ''m'') []]"

definition ex_parse_value :: "schema_node \<Rightarrow> string \<Rightarrow> error + scalar" where
  "ex_parse_value sn text = Inr (SStr text)"

section \<open>Properties\<close>

lemma from_list_linked: "list_of_linked (from_list vals) = vals"
proof -
  have "list_of_linked (fold (\<lambda>v res. cons res v) xs acc) = rev xs @ list_of_linked acc"
    for xs :: "'a list" and acc
    by (induction xs arbitrary: acc) (simp_all add: cons_def)
  from this [of "rev vals" EmptyList] show ?thesis
    by (simp add: from_list_def)
qed

lemma from_list_Nil: "from_list [] = EmptyList"
  by (simp add: from_list_def)

lemma from_list_Cons: "from_list (x # xs) = LinkedList x (from_list xs)"
  by (simp add: from_list_def cons_def)




subsection \<open>What the operations return\<close>

text \<open>
  \<open>x[i].up()\<close> for an entry of an array: the entries before \<open>i\<close> come back in
  reversed order.
\<close>

lemma entry_up_value:
  assumes "node_value x = ArrayValue vs ts" and "i < length vs"
  shows "\<exists>y. and_then (getitem x (Index (int i))) (up now) = Inr y
           \<and> node_value y = ArrayValue (rev (take i vs) @ [vs ! i] @ drop (Suc i) vs) ts"
proof -
  have g: "getitem x (Index (int i))
      = Inr (ArrayEntry (int i) (from_list (take i vs)) (from_list (drop (Suc i) vs)) (vs ! i) x
               (node_schema x) ts)"
    using assms
    by (simp add: getitem_def inst_entry_def list_getitem_def norm_index_def slice_to_def
        slice_from_def nat_add_distrib)
  obtain y where "copy_node now x (ArrayValue (rev (take i vs) @ [vs ! i] @ drop (Suc i) vs) ts)
        (Some (max ts (node_timestamp x))) = Inr y"
      and "node_value y = ArrayValue (rev (take i vs) @ [vs ! i] @ drop (Suc i) vs) ts"
    by (cases x) simp_all
  then show ?thesis
    using g by (auto simp: and_then_def up_def from_list_linked)
qed

text \<open>\<open>insert_before\<close> and \<open>insert_after\<close> keep the index of the receiver.\<close>

lemma insert_before_entry:
  "insert_before dec now (ArrayEntry i bef aft v p sn ts) newv False
     = Inr (ArrayEntry i bef (LinkedList v aft) newv p sn now)"
  by (simp add: cook_value_def cons_def)

lemma insert_after_entry:
  "insert_after dec now (ArrayEntry i bef aft v p sn ts) newv False
     = Inr (ArrayEntry i (LinkedList v bef) aft newv p sn now)"
  by (simp add: cook_value_def cons_def)

text \<open>
  \<open>delete_item\<close>: a missing member name raises NonexistentInstance, a present member or
  entry is removed, an index out of range raises TypeError, a scalar value raises
  InstanceValueError.
\<close>

lemma copy_node_structured:
  "is_StructuredValue newval \<Longrightarrow>
     \<exists>y. copy_node now x newval None = Inr y \<and> node_value y = newval
          \<and> node_schema y = node_schema x"
  by (cases x; cases newval) simp_all

lemma delete_item_missing_name:
  "node_value x = ObjectValue ms ts \<Longrightarrow> map_of ms k = None
     \<Longrightarrow> delete_item now x (Name k) = Inl NonexistentInstance"
  by (simp add: delete_item_def)

lemma delete_item_present_name:
  assumes "node_value x = ObjectValue ms ts" and "map_of ms k = Some v"
  shows "\<exists>y. delete_item now x (Name k) = Inr y
           \<and> node_value y = ObjectValue (AList.delete k ms) ts"
  using assms copy_node_structured [of "ObjectValue (AList.delete k ms) ts" now x]
  by (auto simp: delete_item_def)

lemma delete_item_present_index:
  assumes "node_value x = ArrayValue vs ts" and "i < length vs"
  shows "\<exists>y. delete_item now x (Index (int i)) = Inr y
           \<and> node_value y = ArrayValue (take i vs @ drop (Suc i) vs) ts"
  using assms copy_node_structured [of "ArrayValue (take i vs @ drop (Suc i) vs) ts" now x]
  by (auto simp: delete_item_def list_delitem_def norm_index_def)

lemma delete_item_index_out_of_range:
  "node_value x = ArrayValue vs ts \<Longrightarrow> norm_index (length vs) i = None
     \<Longrightarrow> delete_item now x (Index i) = Inl TypeError"
  by (simp add: delete_item_def list_delitem_def)

lemma delete_item_scalar:
  "node_value x = Scalar s \<Longrightarrow> delete_item now x key = Inl InstanceValueError"
  by (simp add: delete_item_def)

text \<open>
  \<open>put_member\<close> without decoding: for a name with a schema node, the result is the
  member with the given value, in the object that holds the new value under the name;
  for a name without one under an internal node, TypeError.
\<close>

lemma member_schema_node_schema:
  "node_schema y = node_schema x \<Longrightarrow> member_schema_node y name = member_schema_node x name"
  unfolding member_schema_node_def by (erule ssubst) (rule refl)

lemma put_member_permitted:
  assumes "node_value x = ObjectValue ms ts" and "member_schema_node x name = Inr csn"
  shows "\<exists>y. copy_node now x (ObjectValue (AList.update name v ms) ts) None = Inr y
           \<and> put_member now x name v False
               = Inr (ObjectMember name (AList.delete name ms) v y csn ts)"
proof -
  obtain y where y: "copy_node now x (ObjectValue (AList.update name v ms) ts) None = Inr y"
      and yv: "node_value y = ObjectValue (AList.update name v ms) ts"
      and ys: "node_schema y = node_schema x"
    using copy_node_structured [of "ObjectValue (AList.update name v ms) ts" now x] by auto
  have "inst_member y (Name name) = Inr (ObjectMember name (AList.delete name ms) v y csn ts)"
    using yv assms(2) member_schema_node_schema [OF ys, of name]
    by (simp add: inst_member_def update_conv' delete_update_same)
  then show ?thesis
    using assms y by (simp add: put_member_def)
qed

lemma put_member_not_permitted:
  assumes "node_value x = ObjectValue ms ts" and "is_InternalNode (node_schema x)"
    and "get_data_child (node_schema x) (fst (iname2qname (node_schema x) name))
           (snd (iname2qname (node_schema x) name)) = None"
  shows "put_member now x name v raw = Inl TypeError"
  using assms
  by (simp add: put_member_def member_schema_node_def new_NonexistentSchemaNode_def
      case_prod_unfold)

text \<open>\<open>peek_step\<close> of a member name or an entry index never raises.\<close>

lemma py_getitem_errors:
  "py_getitem val key = Inl e \<Longrightarrow> e = IndexError \<or> e = KeyError \<or> e = TypeError"
  by (cases "(val, key)" rule: py_getitem.cases)
     (auto simp: list_getitem_def split: option.splits)

lemma peek_key_never_raises: "\<exists>r. peek_key key val = Inr r"
  using py_getitem_errors [of val key]
  by (cases "py_getitem val key") (auto simp: peek_key_def)

text \<open>
  \<open>InternalNode.from_raw\<close> on a raw object whose first key has no data child raises
  AttributeError.
\<close>

lemma from_raw_first_key_unresolvable:
  assumes "class_of (sn_kind s) = InternalNodeC"
    and "partition_colon q = (p, sep, loc0)"
    and "get_data_child s (if sep = [] then p else loc0) (if sep = [] then None else Some p) = None"
  shows "from_raw s (PyDict ((q, w) # ms)) now = Inl AttributeError"
  using assms by (simp add: from_raw_def from_raw_in.simps)

subsection \<open>Claims of the specification\<close>




text \<open>
  C2: the claim says that \<open>x[i].up().value\<close> equals \<open>x.value\<close> element for element.
  \<open>_entry\<close> builds \<open>before\<close> in array order, while \<open>_zip\<close> (like \<open>next\<close> and
  \<open>previous\<close>) reads it nearest entry first. For \<open>[1, 2, 3]\<close> and \<open>i = 2\<close> the
  reconstituted array is \<open>[2, 1, 3]\<close>.
\<close>

theorem C2_entry_up_reversed:
  "and_then (getitem ex_array (Index 2)) (up 0)
     = Inr (RootNode (ArrayValue [Scalar (SInt 2), Scalar (SInt 1), Scalar (SInt 3)] 0)
              (SchemaNode LeafListK ''l'' (Some ''m'') None []) 0)"
  by (simp add: and_then_def getitem_def inst_entry_def up_def ex_array_def list_getitem_def
      norm_index_def slice_to_def slice_from_def from_list_Cons from_list_Nil)

text \<open>
  C3: the claim says that a member name the schema does not permit raises
  NonexistentSchemaNode. For the object over \<open>ex_schema\<close> and the name \<open>zz\<close>,
  \<open>_member_schema_node\<close> finds no data child and constructs the exception from three
  arguments where its class takes two: the call raises TypeError.
\<close>

theorem C3_put_member_unknown_name:
  "member_schema_node ex_object ''zz'' = Inl TypeError
   \<and> put_member 9 ex_object ''zz'' (Scalar (SInt 3)) False = Inl TypeError"
  by (simp add: put_member_def member_schema_node_def ex_object_def ex_schema_def
      iname2qname_def partition_colon_def is_InternalNode_def get_data_child.simps
      resolve_ns_def is_DataNode_def new_NonexistentSchemaNode_def)

text \<open>
  C4: the claim says that an integer index out of the array's range raises
  NonexistentInstance. For \<open>[1, 2, 3]\<close> and the index 7 the handler evaluates
  \<open>"item " + key\<close> with an integer key: the call raises TypeError.
\<close>

theorem C4_delete_item_index_out_of_range:
  "delete_item 9 ex_array (Index 7) = Inl TypeError"
  by (simp add: delete_item_def ex_array_def list_delitem_def norm_index_def)

text \<open>
  C5: the claim says that a raw object with a key for which no data child is resolvable
  fails with RawMemberError. For the raw object \<open>{"zz": 1}\<close> under \<open>ex_schema\<close>,
  \<open>get_data_child\<close> returns \<open>None\<close> and the next statement reads an attribute of it:
  the call raises AttributeError.
\<close>

theorem C5_from_raw_unknown_key:
  "from_raw ex_schema (PyDict [(''zz'', Scalar (SInt 1))]) 9 = Inl AttributeError"
  by (simp add: from_raw_def from_raw_in.simps ex_schema_def partition_colon_def
      get_data_child.simps resolve_ns_def is_DataNode_def)

text \<open>
  C6: the claim says that the entry returned by \<open>insert_after\<close> has the receiver's index
  incremented by one. For \<open>x[0]\<close>, the only entry of the array \<open>[10]\<close>,
  \<open>insert_after(20)\<close> returns an entry with index 0, although it is the second entry
  of the array \<open>[10, 20]\<close> that it zips to.
\<close>

theorem C6_insert_after_index:
  "getitem ex_single (Index 0)
     = Inr (ArrayEntry 0 EmptyList EmptyList (Scalar (SInt 10)) ex_single
              (node_schema ex_single) 0)
   \<and> insert_after dec 9 (ArrayEntry 0 EmptyList EmptyList (Scalar (SInt 10)) ex_single
         (node_schema ex_single) 0) (Scalar (SInt 20)) False
     = Inr (ArrayEntry 0 (LinkedList (Scalar (SInt 10)) EmptyList) EmptyList (Scalar (SInt 20))
              ex_single (node_schema ex_single) 9)
   \<and> zip_node (ArrayEntry 0 (LinkedList (Scalar (SInt 10)) EmptyList) EmptyList
         (Scalar (SInt 20)) ex_single (node_schema ex_single) 9)
     = Inr (ArrayValue [Scalar (SInt 10), Scalar (SInt 20)] 9)"
  by (simp add: cook_value_def cons_def getitem_def inst_entry_def ex_single_def
      list_getitem_def norm_index_def slice_to_def slice_from_def from_list_Nil)

text \<open>
  C7: the claim says that \<open>peek_step\<close> never raises, also for arrays whose entries lack
  a named key. For the selector \<open>EntryKeys {"name": "b"}\<close> and the array
  \<open>[{"port": 80}]\<close>, \<open>peek_step\<close> raises KeyError.
\<close>

theorem C7_peek_step_entry_keys_raises:
  "peek_step (EntryKeys [(''name'', SStr ''b'')])
     (ArrayValue [ObjectValue [(''port'', Scalar (SInt 80))] 0] 0) = Inl KeyError"
  by simp





subsection \<open>The parser returns\<close>

text \<open>
  No method of the parser moves the offset back or changes the text, and each round of
  the two loops moves it forward. So the fuel that \<open>parse\<close> and \<open>predicate\<close> supply
  is never used up: \<open>parse\<close> returns a route or raises, for every text.
\<close>

lemma moved_refl: "moved p p"
  by (simp add: moved_def)

lemma moved_trans: "moved p q \<Longrightarrow> moved q r \<Longrightarrow> moved p r"
  by (auto simp: moved_def)

lemma moved_advance: "moved p (advance k p)"
  by (simp add: moved_def advance_def)

lemma moved_skip_ws: "moved p (skip_ws p)"
  by (simp add: skip_ws_def moved_advance)

lemma peek_not_at_end: "peek p = Inr c \<Longrightarrow> offset p < length (input p)"
  by (cases "offset p < length (input p)") (simp_all add: peek_def rest_of_def)

lemma moved_char: "char c p = Inr p' \<Longrightarrow> moved p p'"
  by (auto simp: char_def moved_advance split: sum.splits if_splits)

lemma char_consumes:
  "char c p = Inr p' \<Longrightarrow> input p' = input p \<and> offset p' = Suc (offset p)
     \<and> offset p < length (input p)"
  by (auto simp: char_def advance_def dest: peek_not_at_end split: sum.splits if_splits)

lemma moved_one_of: "one_of cs p = Inr (c, p') \<Longrightarrow> moved p p'"
  by (auto simp: one_of_def moved_advance split: sum.splits if_splits)

lemma moved_up_to: "up_to t p = Inr (s, p') \<Longrightarrow> moved p p'"
  by (auto simp: up_to_def moved_advance split: if_splits)

lemma moved_unsigned_integer: "unsigned_integer p = Inr (n, p') \<Longrightarrow> moved p p'"
  by (auto simp: unsigned_integer_def Let_def moved_advance split: if_splits)

lemma moved_yang_identifier: "yang_identifier p = Inr (s, p') \<Longrightarrow> moved p p'"
  by (auto simp: yang_identifier_def moved_advance split: list.splits if_splits)

lemma moved_prefixed_name: "prefixed_name p = Inr (r, p') \<Longrightarrow> moved p p'"
  by (auto simp: prefixed_name_def moved_def advance_def
      split: sum.splits if_splits prod.splits dest!: moved_yang_identifier)

lemma moved_member_name: "member_name sn p = Inr (r, p') \<Longrightarrow> moved p p'"
  by (auto simp: member_name_def split: sum.splits if_splits prod.splits option.splits
      dest: moved_prefixed_name)

lemma moved_get_value: "get_value pv tn p = Inr (v, p') \<Longrightarrow> moved p p'"
  by (auto simp: get_value_def moved_def skip_ws_def advance_def
      split: sum.splits prod.splits option.splits
      dest!: moved_char moved_one_of moved_up_to)


lemma key_predicates_total:
  "length (input p) - offset p < fuel \<Longrightarrow> key_predicates fuel pv sn sel p \<noteq> None"
proof (induction fuel arbitrary: sel p)
  case 0
  then show ?case by simp
next
  case (Suc fuel)
  show ?case
  proof (cases "prefixed_name p")
    case (Inl e)
    then show ?thesis by simp
  next
    case (Inr r)
    obtain name ns p1 where r: "r = ((name, ns), p1)"
      by (cases r) auto
    have m1: "moved p p1"
      using Inr r by (auto dest: moved_prefixed_name)
    show ?thesis
    proof (cases "get_value pv (get_data_child sn name ns) p1")
      case (Inl e)
      then show ?thesis using Inr r by simp
    next
      case gv: (Inr g)
      obtain v p2 where g: "g = (v, p2)"
        by (cases g) auto
      have m2: "moved p1 p2"
        using gv g by (auto dest: moved_get_value)
      have rec: "peek p2 = Inr c \<Longrightarrow>
          key_predicates fuel pv sn sel' (skip_ws (advance 1 p2)) \<noteq> None" for c sel'
      proof -
        assume "peek p2 = Inr c"
        then have "offset p2 < length (input p2)"
          by (rule peek_not_at_end)
        with m1 m2 Suc.prems
        have "length (input (skip_ws (advance 1 p2))) - offset (skip_ws (advance 1 p2)) < fuel"
          by (auto simp: moved_def skip_ws_def advance_def)
        then show ?thesis
          by (rule Suc.IH)
      qed
      show ?thesis
        using Inr r gv g rec
        by (auto split: option.splits sum.splits)
    qed
  qed
qed

lemma predicate_total: "predicate pv cn p \<noteq> None"
proof -
  have "moved p (skip_ws (advance 1 p))"
    by (auto simp: moved_def skip_ws_def advance_def)
  then have "length (input (skip_ws (advance 1 p))) - offset (skip_ws (advance 1 p))
      < Suc (length (input (skip_ws (advance 1 p))))"
    by simp
  from key_predicates_total [OF this]
  show ?thesis
    by (auto simp: predicate_def Let_def simp del: key_predicates.simps
        split: sum.splits prod.splits)
qed

lemma moved_key_predicates:
  "key_predicates fuel pv sn sel p = Some (Inr (s, p')) \<Longrightarrow> moved p p'"
proof (induction fuel arbitrary: sel p)
  case 0
  then show ?case by simp
next
  case (Suc fuel)
  from Suc.prems show ?case
    by (auto simp: moved_def skip_ws_def advance_def
        split: sum.splits prod.splits if_splits option.splits
        dest!: moved_prefixed_name moved_get_value Suc.IH)
qed

lemma moved_predicate: "predicate pv cn p = Some (Inr (s, p')) \<Longrightarrow> moved p p'"
  by (auto simp: predicate_def Let_def moved_def skip_ws_def advance_def
      simp del: key_predicates.simps
      split: sum.splits prod.splits if_splits
      dest!: moved_unsigned_integer moved_char moved_get_value moved_key_predicates)

lemma parse_loop_total:
  "length (input p) - offset p < fuel \<Longrightarrow> parse_loop fuel pv sn res p \<noteq> None"
proof (induction fuel arbitrary: sn res p)
  case 0
  then show ?case by simp
next
  case (Suc fuel)
  show ?case
  proof (cases "char (CHR ''/'') p")
    case (Inl e)
    then show ?thesis by simp
  next
    case (Inr p1)
    note c = char_consumes [OF Inr]
    show ?thesis
    proof (cases "member_name sn p1")
      case (Inl e)
      then show ?thesis using Inr by simp
    next
      case mn: (Inr r)
      obtain mnam cn p2 where r: "r = ((mnam, cn), p2)"
        by (cases r) auto
      have m2: "moved p1 p2"
        using mn r by (auto dest: moved_member_name)
      have less: "moved p2 p3 \<Longrightarrow> length (input p3) - offset p3 < fuel" for p3
        using c m2 Suc.prems by (auto simp: moved_def)
      have rec2: "parse_loop fuel pv cn res' p2 \<noteq> None" for res'
        using less [OF moved_refl] by (rule Suc.IH)
      have rec3: "predicate pv cn p2 = Some (Inr (s, p3)) \<Longrightarrow>
          parse_loop fuel pv cn res' p3 \<noteq> None" for s p3 res'
        using less [OF moved_predicate] by (rule Suc.IH)
      show ?thesis
        using Inr mn r rec2 rec3 predicate_total [of pv cn p2]
        by (auto split: sum.splits option.splits)
    qed
  qed
qed

theorem parse_returns: "parse pv schema text \<noteq> None"
  unfolding parse_def by (rule parse_loop_total) simp

lemma rest_of_advance: "rest_of (advance k p) = drop k (rest_of p)"
  by (simp add: rest_of_def advance_def add.commute)

lemma input_advance: "input (advance k p) = input p"
  by (simp add: advance_def)

lemma advance_advance: "advance a (advance b p) = advance (b + a) p"
  by (simp add: advance_def add.assoc)

lemma takeWhile_prefix:
  "list_all P xs \<Longrightarrow> (case ys of [] \<Rightarrow> True | y # ys' \<Rightarrow> \<not> P y) \<Longrightarrow> takeWhile P (xs @ ys) = xs"
  by (induction xs) (auto split: list.splits)

lemma skip_ws_prefix:
  assumes "rest_of p = ws @ r" and "list_all is_ws ws"
    and "case r of [] \<Rightarrow> True | y # ys \<Rightarrow> \<not> is_ws y"
  shows "skip_ws p = advance (length ws) p"
  using assms by (simp add: skip_ws_def takeWhile_prefix)

lemma digit_not_ws: "is_digit c \<Longrightarrow> \<not> is_ws c"
  by (auto simp: is_digit_def is_ws_def)

lemma int_of_digits_nonneg_aux:
  "list_all is_digit ds \<Longrightarrow> 0 \<le> a \<Longrightarrow> 0 \<le> foldl (\<lambda>a c. 10 * a + digit_value c) a ds"
proof (induction ds arbitrary: a)
  case Nil
  then show ?case by simp
next
  case (Cons d ds)
  from Cons.prems have "0 \<le> digit_value d"
    by (auto simp: is_digit_def digit_value_def)
  with Cons.prems have "0 \<le> 10 * a + digit_value d" by simp
  with Cons show ?case by simp
qed

lemma int_of_digits_nonneg: "list_all is_digit ds \<Longrightarrow> 0 \<le> int_of_digits ds"
  by (simp add: int_of_digits_def int_of_digits_nonneg_aux)

lemma at_end_advance:
  assumes "rest_of p = xs @ tail" and "xs \<noteq> []"
  shows "at_end (advance (length xs) p) = (tail = [])"
proof -
  from assms have "length (input p) - offset p = length xs + length tail"
    by (metis length_append length_drop rest_of_def)
  moreover from assms have "offset p < length (input p)"
    by (metis append_is_Nil_conv drop_eq_Nil not_le_imp_less rest_of_def)
  ultimately have "(length (input p) \<le> offset p + length xs) = (length tail = 0)"
    by linarith
  then show ?thesis
    by (simp add: at_end_def advance_def)
qed

lemma predicate_index:
  assumes rest: "rest_of p = ''['' @ ws1 @ ds @ ws2 @ '']'' @ tail"
    and ws: "list_all is_ws ws1" "list_all is_ws ws2"
    and ds: "ds \<noteq> []" "list_all is_digit ds"
  shows "predicate parse_value cn p =
     (if int_of_digits ds = 0 then Some (Inl UnexpectedInput)
      else Some (Inr (EntryIndex (int_of_digits ds - 1),
                      advance (length (''['' @ ws1 @ ds @ ws2 @ '']'')) p)))"
proof -
  obtain d ds' where dsd: "ds = d # ds'" and d: "is_digit d"
    using ds by (cases ds) auto
  let ?p0 = "advance 1 p"
  have r0: "rest_of ?p0 = ws1 @ (ds @ ws2 @ '']'' @ tail)"
    using rest by (simp add: rest_of_advance)
  have p1: "skip_ws ?p0 = advance (Suc (length ws1)) p"
    using skip_ws_prefix [OF r0 ws(1)] d dsd
    by (simp add: digit_not_ws advance_advance)
  let ?p1 = "advance (Suc (length ws1)) p"
  have r1: "rest_of ?p1 = ds @ (ws2 @ '']'' @ tail)"
    using rest by (simp add: rest_of_advance)
  have pk: "peek ?p1 = Inr d"
    using r1 dsd by (simp add: peek_def)
  have nd: "case ws2 @ '']'' @ tail of [] \<Rightarrow> True | y # ys \<Rightarrow> \<not> is_digit y"
    using ws(2) by (cases ws2) (auto simp: is_digit_def is_ws_def)
  have tw: "takeWhile is_digit (rest_of ?p1) = ds"
    unfolding r1 using ds(2) nd by (rule takeWhile_prefix)
  have ui: "unsigned_integer ?p1 = Inr (int_of_digits ds, advance (Suc (length ws1) + length ds) p)"
    using ds(1) by (simp add: unsigned_integer_def tw advance_advance)
  let ?p2 = "advance (Suc (length ws1) + length ds) p"
  have r2: "rest_of ?p2 = ws2 @ ('']'' @ tail)"
    using rest by (simp add: rest_of_advance)
  have p3: "skip_ws ?p2 = advance (Suc (length ws1) + length ds + length ws2) p"
    using skip_ws_prefix [OF r2 ws(2)]
    by (simp add: is_ws_def advance_advance)
  let ?p3 = "advance (Suc (length ws1) + length ds + length ws2) p"
  have r3: "rest_of ?p3 = '']'' @ tail"
    using rest by (simp add: rest_of_advance)
  have ch: "char (CHR '']'') ?p3 = Inr (advance (length (''['' @ ws1 @ ds @ ws2 @ '']'')) p)"
    using r3 by (simp add: char_def peek_def advance_advance add.assoc)
  have nn: "0 \<le> int_of_digits ds"
    using ds(2) by (rule int_of_digits_nonneg)
  show ?thesis
  proof (cases "int_of_digits ds = 0")
    case True
    then have neg: "int_of_digits ds - 1 < 0" by simp
    show ?thesis
      unfolding predicate_def Let_def p1 pk
      by (simp only: sum.case d if_True ui prod.case) (simp add: True)
  next
    case False
    with nn have pos: "\<not> int_of_digits ds - 1 < 0" by simp
    show ?thesis
      unfolding predicate_def Let_def p1 pk
      by (simp only: sum.case d if_True ui prod.case pos if_False p3 ch False)
  qed
qed

text \<open>
  C8: where the parser stands before a slash and a member name that resolves to a data
  node, and the text that follows is a predicate \<open>[n]\<close> with a decimal integer \<open>n\<close>
  (white space allowed inside the brackets), the round of the parse loop raises
  UnexpectedInput when \<open>n\<close> is 0, and otherwise appends the member name and an
  \<open>EntryIndex\<close> selector holding \<open>n - 1\<close> to the route: the route is returned if
  the text ends there, and the loop goes on behind the predicate if not.
\<close>

theorem C8_index_predicate:
  assumes slash: "char (CHR ''/'') st = Inr st1"
    and name: "member_name sn st1 = Inr ((mnam, cn), st2)"
    and rest: "rest_of st2 = ''['' @ ws1 @ ds @ ws2 @ '']'' @ tail"
    and ws: "list_all is_ws ws1" "list_all is_ws ws2"
    and ds: "ds \<noteq> []" "list_all is_digit ds"
  shows "parse_loop (Suc fuel) parse_value sn res st =
     (if int_of_digits ds = 0 then Some (Inl UnexpectedInput)
      else if tail = [] then Some (Inr (res @ [mnam, EntryIndex (int_of_digits ds - 1)]))
      else parse_loop fuel parse_value cn (res @ [mnam, EntryIndex (int_of_digits ds - 1)])
             (advance (length (''['' @ ws1 @ ds @ ws2 @ '']'')) st2))"
proof -
  have pk: "peek st2 = Inr (CHR ''['')"
    using rest by (simp add: peek_def)
  have ae: "at_end (advance (length (''['' @ ws1 @ ds @ ws2 @ '']'')) st2) = (tail = [])"
    using at_end_advance [of st2 "''['' @ ws1 @ ds @ ws2 @ '']''" tail] rest by simp
  show ?thesis
    using ae
    by (simp add: slash name pk predicate_index [OF rest ws ds] del: length_append append_assoc)
qed


lemma ex_slash:
  "char (CHR ''/'') \<lparr>input = CHR ''/'' # r, offset = 0\<rparr>
     = Inr \<lparr>input = CHR ''/'' # r, offset = 1\<rparr>"
  by (simp add: char_def peek_def rest_of_def advance_def)

lemma ex_member_name:
  "member_name ex_list_schema \<lparr>input = CHR ''/'' # CHR ''a'' # CHR ''['' # r, offset = 1\<rparr>
     = Inr ((MemberName ''a'', SchemaNode LeafListK ''a'' (Some ''m'') (Some ''m'') []),
            \<lparr>input = CHR ''/'' # CHR ''a'' # CHR ''['' # r, offset = 2\<rparr>)"
  by (simp add: member_name_def prefixed_name_def yang_identifier_def rest_of_def peek_def
      advance_def ident_start_def ident_char_def is_digit_def ex_list_schema_def
      is_InternalNode_def get_data_child.simps resolve_ns_def is_DataNode_def iname_def qname_def)

text \<open>
  C8, witness: \<open>/a[3]\<close> gives the route of \<open>a\<close> and entry index 2, and \<open>/a[ 0 ]\<close>
  raises UnexpectedInput.
\<close>

theorem C8_index_predicate_witness:
  "parse ex_parse_value ex_list_schema ''/a[3]'' = Some (Inr [MemberName ''a'', EntryIndex 2])
   \<and> parse ex_parse_value ex_list_schema ''/a[ 0 ]'' = Some (Inl UnexpectedInput)"
proof -
  have d3: "int_of_digits ''3'' = 3" and d0: "int_of_digits ''0'' = 0"
    by (simp_all add: int_of_digits_def digit_value_def)
  have "parse ex_parse_value ex_list_schema ''/a[3]'' = Some (Inr [MemberName ''a'', EntryIndex 2])"
    unfolding parse_def
    using C8_index_predicate [OF ex_slash [of "''a[3]''"] ex_member_name [of "''3]''"],
        of "[]" "''3''" "[]" "[]" "length ''/a[3]''" ex_parse_value "[]"] d3
    by (simp add: rest_of_def is_digit_def del: parse_loop.simps)
  moreover
  have "parse ex_parse_value ex_list_schema ''/a[ 0 ]'' = Some (Inl UnexpectedInput)"
    unfolding parse_def
    using C8_index_predicate [OF ex_slash [of "''a[ 0 ]''"] ex_member_name [of "'' 0 ]''"],
        of "'' ''" "''0''" "'' ''" "[]" "length ''/a[ 0 ]''" ex_parse_value "[]"] d0
    by (simp add: rest_of_def is_digit_def is_ws_def del: parse_loop.simps)
  ultimately show ?thesis
    by (rule conjI)
qed

text \<open>
  C10: \<open>next\<close> and \<open>previous\<close> are mutually inverse where defined. For an array entry
  whose \<open>after\<close> list is not empty, \<open>next\<close> followed by \<open>previous\<close> gives the entry
  back, equal in every component (index, value, before, after, parent, schema node and
  timestamp); for an entry whose \<open>before\<close> list is not empty, \<open>previous\<close> followed by
  \<open>next\<close> does.
\<close>

theorem C10_next_previous_inverse:
  "and_then (next_entry (ArrayEntry i bef (LinkedList a aft) v p sn ts)) previous_entry
     = Inr (ArrayEntry i bef (LinkedList a aft) v p sn ts)
   \<and> and_then (previous_entry (ArrayEntry i (LinkedList b bef) aft v p sn ts)) next_entry
     = Inr (ArrayEntry i (LinkedList b bef) aft v p sn ts)"
  by (simp add: and_then_def cons_def)

end
